theory Spec2Isabelle
  imports Complex_Main
begin

section \<open>JavaScript strings and numbers used by the G-code hook\<close>

text \<open>
  Strings are lists of 8-bit characters. Numbers are the exact values a literal denotes,
  together with the two infinities that \<^verbatim>\<open>Number.parseFloat\<close> can return; the
  rounding of a literal to the nearest double and the sign of zero are not part of the
  model, and \<open>NaN\<close> is the absence of a value (\<open>None\<close>).
\<close>

datatype number = Num real | PosInfinity | NegInfinity

text \<open>White space and line terminators removed by \<^verbatim>\<open>String.prototype.trim\<close>.\<close>

definition isWhiteSpace :: "char \<Rightarrow> bool" where
  "isWhiteSpace c \<longleftrightarrow>
     c = CHR 0x09 \<or> c = CHR 0x0A \<or> c = CHR 0x0B \<or> c = CHR 0x0C \<or> c = CHR 0x0D \<or>
     c = CHR '' '' \<or> c = CHR 0xA0"

definition trimStart :: "string \<Rightarrow> string" where
  "trimStart s = dropWhile isWhiteSpace s"

definition trim :: "string \<Rightarrow> string" where
  "trim s = rev (trimStart (rev (trimStart s)))"

text \<open>\<^verbatim>\<open>s.startsWith(p)\<close>.\<close>

definition startsWith :: "string \<Rightarrow> string \<Rightarrow> bool" where
  "startsWith s p \<longleftrightarrow> take (length p) s = p"

text \<open>
  \<^verbatim>\<open>s.split(sep)\<close> for a one-character separator: the empty string gives one empty
  piece, and two separators in a row give an empty piece between them.
\<close>

fun splitOn :: "char \<Rightarrow> string \<Rightarrow> string list" where
  "splitOn sep [] = [[]]"
| "splitOn sep (c # cs) =
     (if c = sep then [] # splitOn sep cs
      else (case splitOn sep cs of
              [] \<Rightarrow> [[c]]
            | w # ws \<Rightarrow> (c # w) # ws))"

text \<open>
  \<^verbatim>\<open>toUpperCase\<close> on one character. Only the ASCII letters are mapped; the parser
  compares the result with \<open>G\<close>, \<open>X\<close>, \<open>Y\<close> and \<open>Z\<close> alone, and no other character has
  one of these as its upper case.
\<close>

definition toUpperCaseChar :: "char \<Rightarrow> char" where
  "toUpperCaseChar c =
     (if 97 \<le> (of_char c :: nat) \<and> (of_char c :: nat) \<le> 122
      then char_of ((of_char c :: nat) - 32) else c)"

definition toUpperCase :: "string \<Rightarrow> string" where
  "toUpperCase s = map toUpperCaseChar s"

text \<open>\<^verbatim>\<open>s.charAt(0)\<close> is the empty string when \<open>s\<close> is empty; \<^verbatim>\<open>s.slice(1)\<close>.\<close>

definition charAt0 :: "string \<Rightarrow> string" where
  "charAt0 s = take 1 s"

definition slice1 :: "string \<Rightarrow> string" where
  "slice1 s = drop 1 s"

subsection \<open>\<^verbatim>\<open>Number.parseFloat\<close>\<close>

text \<open>The decimal digits are the characters with codes 48 to 57.\<close>

definition digitValue :: "char \<Rightarrow> nat option" where
  "digitValue c =
     (let n = (of_char c :: nat) in if 48 \<le> n \<and> n \<le> 57 then Some (n - 48) else None)"

definition isDigit :: "char \<Rightarrow> bool" where
  "isDigit c \<longleftrightarrow> digitValue c \<noteq> None"

fun digitsValue :: "string \<Rightarrow> nat \<Rightarrow> nat" where
  "digitsValue [] acc = acc"
| "digitsValue (c # cs) acc =
     digitsValue cs (10 * acc + (case digitValue c of None \<Rightarrow> 0 | Some d \<Rightarrow> d))"

text \<open>
  The exponent part \<open>e\<close>, \<open>E\<close> with an optional sign counts only when at least one digit
  follows; otherwise the literal ends before it.
\<close>

definition exponentPart :: "string \<Rightarrow> int" where
  "exponentPart s =
     (if s \<noteq> [] \<and> (hd s = CHR ''e'' \<or> hd s = CHR ''E'') then
        (let r = tl s;
             neg = (r \<noteq> [] \<and> hd r = CHR ''-'');
             r' = (if r \<noteq> [] \<and> (hd r = CHR ''+'' \<or> hd r = CHR ''-'') then tl r else r);
             ds = takeWhile isDigit r'
         in if ds = [] then 0
            else if neg then - int (digitsValue ds 0) else int (digitsValue ds 0))
      else 0)"

definition scale10 :: "real \<Rightarrow> int \<Rightarrow> real" where
  "scale10 m e = (if 0 \<le> e then m * 10 ^ nat e else m / 10 ^ nat (- e))"

text \<open>
  The unsigned literal: \<open>Infinity\<close>, or digits with an optional fraction and exponent, or
  a dot followed by digits. The longest prefix of the text that is such a literal is
  read, and what follows it is ignored; no such prefix gives \<open>NaN\<close>.
\<close>

definition unsignedLiteral :: "string \<Rightarrow> number option" where
  "unsignedLiteral s =
     (if startsWith s ''Infinity'' then Some PosInfinity
      else
        (let ip = takeWhile isDigit s;
             r1 = dropWhile isDigit s;
             hasDot = (r1 \<noteq> [] \<and> hd r1 = CHR ''.'');
             fp = (if hasDot then takeWhile isDigit (tl r1) else []);
             r2 = (if hasDot then dropWhile isDigit (tl r1) else r1)
         in if ip = [] \<and> fp = [] then None
            else Some (Num (scale10
                   (real (digitsValue ip 0) + real (digitsValue fp 0) / 10 ^ length fp)
                   (exponentPart r2)))))"

definition negateNumber :: "number \<Rightarrow> number" where
  "negateNumber v = (case v of Num r \<Rightarrow> Num (- r) | PosInfinity \<Rightarrow> NegInfinity
                     | NegInfinity \<Rightarrow> PosInfinity)"

definition parseFloat :: "string \<Rightarrow> number option" where
  "parseFloat s =
     (let t = trimStart s in
      if t \<noteq> [] \<and> hd t = CHR ''-'' then map_option negateNumber (unsignedLiteral (tl t))
      else if t \<noteq> [] \<and> hd t = CHR ''+'' then unsignedLiteral (tl t)
      else unsignedLiteral t)"

section \<open>The G-code hook: \<^verbatim>\<open>parseGCode\<close> and \<^verbatim>\<open>createToolPath\<close>\<close>

text \<open>
  \<^verbatim>\<open>interface GCodeCommand { type: string; x?: number; y?: number; z?: number }\<close>.
  An absent coordinate (\<^verbatim>\<open>undefined\<close>) is \<open>None\<close>.
\<close>

record GCodeCommand =
  cmd_type :: string
  cmd_x :: "number option"
  cmd_y :: "number option"
  cmd_z :: "number option"

text \<open>The body of the loop over the parts of one line.\<close>

definition parsePart :: "GCodeCommand \<Rightarrow> string \<Rightarrow> GCodeCommand" where
  "parsePart command part =
     (let code = toUpperCase (charAt0 part);
          val = parseFloat (slice1 part)
      in if code = ''G'' then command\<lparr>cmd_type := part\<rparr>
         else if val \<noteq> None then
           (if code = ''X'' then command\<lparr>cmd_x := val\<rparr>
            else if code = ''Y'' then command\<lparr>cmd_y := val\<rparr>
            else if code = ''Z'' then command\<lparr>cmd_z := val\<rparr>
            else command)
         else command)"

definition parseParts :: "string list \<Rightarrow> GCodeCommand" where
  "parseParts parts =
     foldl parsePart \<lparr>cmd_type = [], cmd_x = None, cmd_y = None, cmd_z = None\<rparr> parts"

text \<open>The test that guards \<^verbatim>\<open>commands.push(command)\<close>.\<close>

definition keepCommand :: "GCodeCommand \<Rightarrow> bool" where
  "keepCommand command \<longleftrightarrow>
     cmd_type command \<noteq> [] \<and>
     (cmd_x command \<noteq> None \<or> cmd_y command \<noteq> None \<or> cmd_z command \<noteq> None)"

text \<open>A line is skipped when its trimmed form is empty or begins with a semicolon.\<close>

definition skipLine :: "string \<Rightarrow> bool" where
  "skipLine line \<longleftrightarrow> trim line = [] \<or> startsWith (trim line) '';''"

fun parseLines :: "string list \<Rightarrow> GCodeCommand list \<Rightarrow> GCodeCommand list" where
  "parseLines [] commands = commands"
| "parseLines (line # rest) commands =
     (if skipLine line then parseLines rest commands
      else
        (let command = parseParts (splitOn CHR '' '' (trim line))
         in if keepCommand command then parseLines rest (commands @ [command])
            else parseLines rest commands))"

definition parseGCode :: "string \<Rightarrow> GCodeCommand list" where
  "parseGCode content = parseLines (splitOn CHR 0x0A content) []"

text \<open>
  A \<^verbatim>\<open>THREE.Vector3\<close> is its three coordinates, and the line object that
  \<^verbatim>\<open>createToolPath\<close> returns is the list of points its geometry is built from.
\<close>

type_synonym Vector3 = "number \<times> number \<times> number"

definition isMotion :: "GCodeCommand \<Rightarrow> bool" where
  "isMotion command \<longleftrightarrow>
     startsWith (cmd_type command) ''G0'' \<or> startsWith (cmd_type command) ''G1''"

definition moveTo :: "Vector3 \<Rightarrow> GCodeCommand \<Rightarrow> Vector3" where
  "moveTo currentPosition command =
     (case currentPosition of (px, py, pz) \<Rightarrow>
        (case cmd_x command of None \<Rightarrow> px | Some v \<Rightarrow> v,
         case cmd_y command of None \<Rightarrow> py | Some v \<Rightarrow> v,
         case cmd_z command of None \<Rightarrow> pz | Some v \<Rightarrow> v))"

fun pathLoop :: "GCodeCommand list \<Rightarrow> Vector3 \<Rightarrow> Vector3 list \<Rightarrow> Vector3 list" where
  "pathLoop [] currentPosition points = points"
| "pathLoop (command # rest) currentPosition points =
     (if isMotion command then
        (let newPosition = moveTo currentPosition command
         in pathLoop rest newPosition (points @ [currentPosition, newPosition]))
      else pathLoop rest currentPosition points)"

definition createToolPath :: "GCodeCommand list \<Rightarrow> Vector3 list" where
  "createToolPath commands =
     (let points = pathLoop commands (Num 0, Num 0, Num 0) []
      in if length points < 2
         then points @ [(Num (- 10), Num 0, Num 0), (Num 10, Num 0, Num 0)]
         else points)"

subsection \<open>Vocabulary for statements about the parser\<close>

text \<open>
  A \<open>G\<close> token is a part whose first character is \<open>g\<close> or \<open>G\<close>; a numerically valid
  token for an axis is a part whose first character is that axis letter (in either case)
  and whose remainder \<^verbatim>\<open>parseFloat\<close> reads as a number.
\<close>

definition isGToken :: "string \<Rightarrow> bool" where
  "isGToken part \<longleftrightarrow> toUpperCase (charAt0 part) = ''G''"

definition isAxisToken :: "string \<Rightarrow> string \<Rightarrow> bool" where
  "isAxisToken axis part \<longleftrightarrow>
     toUpperCase (charAt0 part) = axis \<and> parseFloat (slice1 part) \<noteq> None"

definition lastOr :: "'a \<Rightarrow> 'a list \<Rightarrow> 'a" where
  "lastOr d xs = (if xs = [] then d else last xs)"

definition lineParts :: "string \<Rightarrow> string list" where
  "lineParts line = splitOn CHR '' '' (trim line)"

definition lineAppended :: "string \<Rightarrow> bool" where
  "lineAppended line \<longleftrightarrow>
     \<not> skipLine line \<and>
     filter isGToken (lineParts line) \<noteq> [] \<and>
     (filter (isAxisToken ''X'') (lineParts line) \<noteq> [] \<or>
      filter (isAxisToken ''Y'') (lineParts line) \<noteq> [] \<or>
      filter (isAxisToken ''Z'') (lineParts line) \<noteq> [])"

text \<open>The seven-line text of the end-to-end scenario.\<close>

definition endToEndText :: string where
  "endToEndText =
     ''G21'' @ [CHR 0x0A] @ ''G90'' @ [CHR 0x0A] @ ''G0 Z5'' @ [CHR 0x0A] @
     ''G0 X0 Y0'' @ [CHR 0x0A] @ ''G1 Z-1 F100'' @ [CHR 0x0A] @
     ''G1 X50 F200'' @ [CHR 0x0A] @ ''G1 Y50''"

section \<open>The scene: playback and the partial path\<close>

text \<open>
  The state that the handlers of the scene component read and write: the React state
  \<^verbatim>\<open>isPlaying\<close> and \<^verbatim>\<open>progress\<close>, and the refs. A displayed line is the list
  of points of its geometry; it is in the scene graph exactly while \<open>toolPathRef\<close> holds
  it. \<open>sceneRef\<close> tells whether the scene exists, and \<open>disposed\<close> records each geometry
  whose \<^verbatim>\<open>dispose\<close> was called. Times and progress are reals, and the sums and
  quotients of a tick are taken exactly. Every handler is
  taken to see the state as the latest render left it; the requests and cancellations of
  animation frames are not part of the state.
\<close>

record SceneState =
  isPlaying :: bool
  progress :: real
  lastTimeRef :: real
  sceneRef :: bool
  toolPathRef :: "Vector3 list option"
  completePathPointsRef :: "Vector3 list"
  disposed :: "Vector3 list list"

subsection \<open>The product of two doubles\<close>

text \<open>
  The product whose ceiling selects the visible points is a product of doubles: the exact
  product rounded to the nearest double, ties to the even significand. A double has a
  significand of 53 bits, so the spacing of the doubles around a positive \<open>x\<close> is 2 to
  the power of the binary exponent of \<open>x\<close> minus 52, and never below 2 to the power
  \<open>-1074\<close>, the spacing of the subnormal numbers. Overflow to infinity is left out: the
  products formed here are below the number of points.
\<close>

fun bitLength :: "nat \<Rightarrow> nat" where
  "bitLength n = (if n = 0 then 0 else Suc (bitLength (n div 2)))"

declare bitLength.simps [simp del]

text \<open>The binary exponent of a positive \<open>x\<close>: the \<open>e\<close> with \<open>2 ^ e \<le> x < 2 ^ (e + 1)\<close>.\<close>

definition binaryExponent :: "real \<Rightarrow> int" where
  "binaryExponent x =
     (if 1 \<le> x then int (bitLength (nat \<lfloor>x\<rfloor>)) - 1
      else - int (bitLength (nat (\<lceil>1 / x\<rceil> - 1))))"

definition pow2 :: "int \<Rightarrow> real" where
  "pow2 e = (if 0 \<le> e then 2 ^ nat e else 1 / 2 ^ nat (- e))"

definition roundHalfEven :: "real \<Rightarrow> int" where
  "roundHalfEven q =
     (let f = \<lfloor>q\<rfloor>; r = q - of_int f
      in if r < 1 / 2 then f else if 1 / 2 < r then f + 1
         else if even f then f else f + 1)"

definition roundMagnitude :: "real \<Rightarrow> real" where
  "roundMagnitude x =
     (if x = 0 then 0
      else (let u = max (binaryExponent x - 52) (- 1074)
            in of_int (roundHalfEven (x / pow2 u)) * pow2 u))"

definition roundDouble :: "real \<Rightarrow> real" where
  "roundDouble x = (if x < 0 then - roundMagnitude (- x) else roundMagnitude x)"

definition animationDuration :: real where
  "animationDuration = 5000"

definition pointsToShow :: "nat \<Rightarrow> real \<Rightarrow> nat" where
  "pointsToShow totalPoints progressValue =
     (if progressValue \<le> 0 then 0
      else if progressValue \<ge> 1 then totalPoints
      else max 2 (nat \<lceil>roundDouble (real totalPoints * progressValue)\<rceil>))"

definition updatePathAnimation :: "real \<Rightarrow> SceneState \<Rightarrow> SceneState" where
  "updatePathAnimation progressValue s =
     (if completePathPointsRef s = [] \<or> \<not> sceneRef s then s
      else
        (let totalPoints = length (completePathPointsRef s);
             visiblePoints =
               take (pointsToShow totalPoints progressValue) (completePathPointsRef s)
         in s\<lparr>toolPathRef := Some visiblePoints,
              disposed := disposed s @
                (case toolPathRef s of None \<Rightarrow> [] | Some l \<Rightarrow> [l])\<rparr>))"

definition animate :: "real \<Rightarrow> SceneState \<Rightarrow> SceneState" where
  "animate currentTime s =
     (if \<not> isPlaying s then s\<lparr>lastTimeRef := 0\<rparr>
      else
        (let lastTime = (if lastTimeRef s = 0 then currentTime else lastTimeRef s);
             deltaTime = currentTime - lastTime;
             newProgress = min 1 (progress s + deltaTime / animationDuration);
             s1 = updatePathAnimation newProgress
                    (s\<lparr>lastTimeRef := currentTime, progress := newProgress\<rparr>)
         in if newProgress \<ge> 1 then s1\<lparr>isPlaying := False, lastTimeRef := 0\<rparr> else s1))"

definition togglePlay :: "SceneState \<Rightarrow> SceneState" where
  "togglePlay s =
     (if \<not> isPlaying s then
        (if progress s \<ge> 1
         then (updatePathAnimation 0 (s\<lparr>progress := 0\<rparr>))\<lparr>isPlaying := True\<rparr>
         else s\<lparr>isPlaying := True\<rparr>)
      else s\<lparr>isPlaying := False\<rparr>)"

definition handleReset :: "SceneState \<Rightarrow> SceneState" where
  "handleReset s =
     updatePathAnimation 0 (s\<lparr>isPlaying := False, progress := 0, lastTimeRef := 0\<rparr>)"

text \<open>
  The slider handler, on the number parsed from the event's value (the range input
  delivers a decimal between its \<open>min\<close> and \<open>max\<close>).
\<close>

definition handleProgressChange :: "real \<Rightarrow> SceneState \<Rightarrow> SceneState" where
  "handleProgressChange newProgress s =
     (let s1 = updatePathAnimation newProgress (s\<lparr>progress := newProgress\<rparr>)
      in if newProgress \<ge> 1 then s1\<lparr>isPlaying := False\<rparr> else s1)"

text \<open>
  An existing scene that holds the given complete path, with playback idle and no line
  displayed yet.
\<close>

definition sceneWithPath :: "Vector3 list \<Rightarrow> SceneState" where
  "sceneWithPath pts =
     \<lparr>isPlaying = False, progress = 0, lastTimeRef = 0, sceneRef = True,
      toolPathRef = None, completePathPointsRef = pts, disposed = []\<rparr>"

definition clamp :: "real \<Rightarrow> real \<Rightarrow> real \<Rightarrow> real" where
  "clamp v lo hi = max lo (min v hi)"

section \<open>The loading hooks\<close>

text \<open>
  \<^verbatim>\<open>useGCodeParser\<close> and \<^verbatim>\<open>useThreeSetup\<close> load through the same effect: the
  effect run captures the ref's content as \<^verbatim>\<open>previousModel\<close>
  (\<^verbatim>\<open>previousPath\<close>), clears the state and starts the asynchronous load; when the
  load settles, its continuation disposes the captured object and sets the state to the
  new object, or to \<open>null\<close> with an error message. The cleanup of an effect run, executed
  before the next run, disposes what that run had captured. The ref follows the state at
  each render. One record serves both hooks; \<open>'r\<close> is the mesh or the line.
\<close>

record 'r HookState =
  resource :: "'r option"
  resourceRef :: "'r option"
  isLoading :: bool
  error :: "string option"
  effectPrevious :: "'r option"
  disposedResources :: "'r list"

datatype 'r outcome = Loaded 'r | Failed string

definition cleanupResource :: "'r option \<Rightarrow> 'r list" where
  "cleanupResource r = (case r of None \<Rightarrow> [] | Some m \<Rightarrow> [m])"

definition initialHook :: "'r HookState" where
  "initialHook =
     \<lparr>resource = None, resourceRef = None, isLoading = False, error = None,
      effectPrevious = None, disposedResources = []\<rparr>"

text \<open>
  A change of the file: the cleanup of the earlier effect run, then the new run up to its
  first \<^verbatim>\<open>await\<close>. The result is the captured previous object, which the
  continuation of this load will use, and the state after the render that follows.
\<close>

definition startLoad :: "'r HookState \<Rightarrow> 'r option \<times> 'r HookState" where
  "startLoad s =
     (let previous = resourceRef s
      in (previous,
          s\<lparr>resource := None, resourceRef := None, isLoading := True, error := None,
            effectPrevious := previous,
            disposedResources := disposedResources s @ cleanupResource (effectPrevious s)\<rparr>))"

text \<open>The continuation of a load after its \<^verbatim>\<open>await\<close>, with what the load gave.\<close>

definition finishLoad :: "'r option \<Rightarrow> 'r outcome \<Rightarrow> 'r HookState \<Rightarrow> 'r HookState" where
  "finishLoad previous result s =
     (case result of
        Loaded r \<Rightarrow>
          s\<lparr>resource := Some r, resourceRef := Some r, isLoading := False, error := None,
            disposedResources := disposedResources s @ cleanupResource previous\<rparr>
      | Failed msg \<Rightarrow>
          s\<lparr>resource := None, resourceRef := None, isLoading := False, error := Some msg,
            disposedResources := disposedResources s @ cleanupResource previous\<rparr>)"

text \<open>What a settled load leaves in the slot.\<close>

definition settledResource :: "'r outcome \<Rightarrow> 'r option" where
  "settledResource result = (case result of Loaded r \<Rightarrow> Some r | Failed msg \<Rightarrow> None)"

text \<open>
  Two loads \<open>A\<close> and \<open>B\<close> for one slot, triggered in this order from a state \<open>s\<close>, the
  second before the first has settled; \<open>aLast\<close> tells that \<open>A\<close> settles after \<open>B\<close>.
\<close>

definition twoLoads ::
  "bool \<Rightarrow> 'r outcome \<Rightarrow> 'r outcome \<Rightarrow> 'r HookState \<Rightarrow> 'r HookState" where
  "twoLoads aLast resultA resultB s =
     (let (prevA, s1) = startLoad s;
          (prevB, s2) = startLoad s1
      in if aLast then finishLoad prevA resultA (finishLoad prevB resultB s2)
         else finishLoad prevB resultB (finishLoad prevA resultA s2))"

text \<open>
  The repository also holds an earlier variant of each hook, without a default path
  (\<^verbatim>\<open>hooks/useThreeSetup.ts\<close> and the earlier \<^verbatim>\<open>useGCodeParser\<close>). Its effect
  returns at once when no file is given; otherwise it sets the loading flag, clears the
  error and hands the file to a \<^verbatim>\<open>FileReader\<close>. The result is the file handed to
  the reader, if any, and the state; of the record this variant uses the fields
  \<open>resource\<close>, \<open>isLoading\<close> and \<open>error\<close>.
\<close>

definition startLoadOld :: "'f option \<Rightarrow> 'r HookState \<Rightarrow> 'f option \<times> 'r HookState" where
  "startLoadOld file s =
     (case file of
        None \<Rightarrow> (None, s)
      | Some f \<Rightarrow> (Some f, s\<lparr>isLoading := True, error := None\<rparr>))"

subsection \<open>What is loaded\<close>

text \<open>
  A file is what reading it gives: its content, or the message of the error thrown.
  \<open>fetch\<close> stands for \<^verbatim>\<open>fetch\<close> followed by the check of \<^verbatim>\<open>response.ok\<close>
  and \<^verbatim>\<open>response.text()\<close>; \<open>loadAsync\<close> and \<open>parseStl\<close> stand for the two entry
  points of the external STL loader.
\<close>

definition DEFAULT_GCODE_PATH :: string where
  "DEFAULT_GCODE_PATH = ''/models/test.gcode''"

definition DEFAULT_STL_PATH :: string where
  "DEFAULT_STL_PATH = ''/models/dragon.stl''"

definition loadPath ::
  "(string \<Rightarrow> string + string) \<Rightarrow> (string + string) option \<Rightarrow> string + Vector3 list" where
  "loadPath fetch gcodeFile =
     (case (case gcodeFile of Some file \<Rightarrow> file | None \<Rightarrow> fetch DEFAULT_GCODE_PATH) of
        Inl err \<Rightarrow> Inl err
      | Inr content \<Rightarrow> Inr (createToolPath (parseGCode content)))"

record 'g Mesh =
  geometry :: 'g
  color :: nat
  specular :: nat
  shininess :: nat

definition newMesh :: "'g \<Rightarrow> 'g Mesh" where
  "newMesh g = \<lparr>geometry = g, color = 0xaaaaaa, specular = 0x111111, shininess = 200\<rparr>"

definition loadModel ::
  "(string \<Rightarrow> string + 'g) \<Rightarrow> ('b \<Rightarrow> string + 'g) \<Rightarrow> (string + 'b) option \<Rightarrow>
     string + 'g Mesh" where
  "loadModel loadAsync parseStl stlFile =
     (case (case stlFile of
              Some file \<Rightarrow> (case file of Inl err \<Rightarrow> Inl err | Inr bytes \<Rightarrow> parseStl bytes)
            | None \<Rightarrow> loadAsync DEFAULT_STL_PATH) of
        Inl err \<Rightarrow> Inl err
      | Inr g \<Rightarrow> Inr (newMesh g))"

text \<open>The default G-code asset of the repository, \<^verbatim>\<open>public/models/test.gcode\<close>.\<close>

definition testGcode :: string where
  "testGcode =
     ''; Square toolpath on a 200x200 grid'' @ [CHR 0x0A] @
     ''G21 ; Set units to millimeters'' @ [CHR 0x0A] @
     ''G90 ; Absolute positioning'' @ [CHR 0x0A] @
     ''G0 Z10 ; Move up for safety'' @ [CHR 0x0A] @
     ''G0 X-60 Y-60 ; Move to start position (larger square)'' @ [CHR 0x0A] @
     ''G1 Z0 F300 ; Plunge to cutting depth (top surface of block)'' @ [CHR 0x0A] @
     ''G1 X60 F600 ; Cut along X'' @ [CHR 0x0A] @
     ''G1 Y60 ; Cut along Y'' @ [CHR 0x0A] @
     ''G1 X-60 ; Cut back along X'' @ [CHR 0x0A] @
     ''G1 Y-60 ; Cut back along Y'' @ [CHR 0x0A] @
     ''G0 Z10 ; Move up for safety'' @ [CHR 0x0A] @
     ''M2 ; End program''"

definition serveDefault :: "string \<Rightarrow> string + string" where
  "serveDefault path =
     (if path = DEFAULT_GCODE_PATH then Inr testGcode else Inl ''HTTP error! status: 404'')"

section \<open>Properties of the parser\<close>

lemma parseParts_snoc: "parseParts (parts @ [p]) = parsePart (parseParts parts) p"
  by (simp add: parseParts_def)

lemma parseParts_Nil:
  "parseParts [] = \<lparr>cmd_type = [], cmd_x = None, cmd_y = None, cmd_z = None\<rparr>"
  by (simp add: parseParts_def)

lemma isGToken_nonempty: "isGToken p \<Longrightarrow> p \<noteq> []"
  by (auto simp: isGToken_def charAt0_def toUpperCase_def)

lemma parseParts_type:
  "cmd_type (parseParts parts) = lastOr [] (filter isGToken parts)"
proof (induction parts rule: rev_induct)
  case Nil
  show ?case by (simp add: parseParts_Nil lastOr_def)
next
  case (snoc p parts)
  then show ?case
    by (simp add: parseParts_snoc parsePart_def Let_def lastOr_def isGToken_def)
qed

lemma parseParts_x:
  "cmd_x (parseParts parts) =
     lastOr None (map (\<lambda>p. parseFloat (slice1 p)) (filter (isAxisToken ''X'') parts))"
proof (induction parts rule: rev_induct)
  case Nil
  show ?case by (simp add: parseParts_Nil lastOr_def)
next
  case (snoc p parts)
  then show ?case
    by (simp add: parseParts_snoc parsePart_def Let_def lastOr_def isAxisToken_def)
qed

lemma parseParts_y:
  "cmd_y (parseParts parts) =
     lastOr None (map (\<lambda>p. parseFloat (slice1 p)) (filter (isAxisToken ''Y'') parts))"
proof (induction parts rule: rev_induct)
  case Nil
  show ?case by (simp add: parseParts_Nil lastOr_def)
next
  case (snoc p parts)
  then show ?case
    by (simp add: parseParts_snoc parsePart_def Let_def lastOr_def isAxisToken_def)
qed

lemma parseParts_z:
  "cmd_z (parseParts parts) =
     lastOr None (map (\<lambda>p. parseFloat (slice1 p)) (filter (isAxisToken ''Z'') parts))"
proof (induction parts rule: rev_induct)
  case Nil
  show ?case by (simp add: parseParts_Nil lastOr_def)
next
  case (snoc p parts)
  then show ?case
    by (simp add: parseParts_snoc parsePart_def Let_def lastOr_def isAxisToken_def)
qed

lemma last_filter_holds: "filter P xs \<noteq> [] \<Longrightarrow> P (last (filter P xs))"
  using last_in_set [of "filter P xs"] by simp

lemma type_nonempty_iff:
  "cmd_type (parseParts parts) \<noteq> [] \<longleftrightarrow> filter isGToken parts \<noteq> []"
  using last_filter_holds [of isGToken parts] isGToken_nonempty
  by (auto simp: parseParts_type lastOr_def)

lemma coord_set_iff:
  "lastOr None (map (\<lambda>p. parseFloat (slice1 p)) (filter (isAxisToken a) parts)) \<noteq> None
     \<longleftrightarrow> filter (isAxisToken a) parts \<noteq> []"
  using last_filter_holds [of "isAxisToken a" parts]
  by (auto simp: lastOr_def last_map isAxisToken_def)

lemma keepCommand_iff:
  "keepCommand (parseParts parts) \<longleftrightarrow>
     filter isGToken parts \<noteq> [] \<and>
     (filter (isAxisToken ''X'') parts \<noteq> [] \<or> filter (isAxisToken ''Y'') parts \<noteq> [] \<or>
      filter (isAxisToken ''Z'') parts \<noteq> [])"
  unfolding keepCommand_def type_nonempty_iff parseParts_x parseParts_y parseParts_z
    coord_set_iff ..

lemma parseLines_acc: "parseLines lines acc = acc @ parseLines lines []"
proof (induction lines arbitrary: acc)
  case Nil
  show ?case by simp
next
  case (Cons l lines)
  show ?case
    using Cons.IH [of "acc @ [parseParts (splitOn CHR '' '' (trim l))]"]
      Cons.IH [of "[parseParts (splitOn CHR '' '' (trim l))]"] Cons.IH [of acc]
    by (simp add: Let_def)
qed

lemma parseLines_filter:
  "parseLines lines [] = map (\<lambda>l. parseParts (lineParts l)) (filter lineAppended lines)"
proof (induction lines)
  case Nil
  show ?case by simp
next
  case (Cons l lines)
  show ?case
    using Cons.IH parseLines_acc [of lines "[parseParts (lineParts l)]"]
    by (simp add: Let_def lineAppended_def keepCommand_iff lineParts_def)
qed

lemma parse_endToEnd:
  "parseGCode endToEndText =
    [\<lparr>cmd_type = ''G0'', cmd_x = None, cmd_y = None, cmd_z = Some (Num 5)\<rparr>,
     \<lparr>cmd_type = ''G0'', cmd_x = Some (Num 0), cmd_y = Some (Num 0), cmd_z = None\<rparr>,
     \<lparr>cmd_type = ''G1'', cmd_x = None, cmd_y = None, cmd_z = Some (Num (- 1))\<rparr>,
     \<lparr>cmd_type = ''G1'', cmd_x = Some (Num 50), cmd_y = None, cmd_z = None\<rparr>,
     \<lparr>cmd_type = ''G1'', cmd_x = None, cmd_y = Some (Num 50), cmd_z = None\<rparr>]"
  by code_simp

lemma path_endToEnd:
  "createToolPath (parseGCode endToEndText) =
    [(Num 0, Num 0, Num 0), (Num 0, Num 0, Num 5),
     (Num 0, Num 0, Num 5), (Num 0, Num 0, Num 5),
     (Num 0, Num 0, Num 5), (Num 0, Num 0, Num (- 1)),
     (Num 0, Num 0, Num (- 1)), (Num 50, Num 0, Num (- 1)),
     (Num 50, Num 0, Num (- 1)), (Num 50, Num 50, Num (- 1))]"
  unfolding parse_endToEnd
  by (simp add: createToolPath_def isMotion_def startsWith_def moveTo_def Let_def)

lemma parse_G4:
  "parseGCode ''G4 X2'' =
     [\<lparr>cmd_type = ''G4'', cmd_x = Some (Num 2), cmd_y = None, cmd_z = None\<rparr>]"
  by code_simp

lemma path_G4:
  "createToolPath [\<lparr>cmd_type = ''G4'', cmd_x = Some (Num 2), cmd_y = None, cmd_z = None\<rparr>]
     = [(Num (- 10), Num 0, Num 0), (Num 10, Num 0, Num 0)]"
  by (simp add: createToolPath_def isMotion_def startsWith_def)

section \<open>Properties of the path builder\<close>

lemma pathLoop_no_motion:
  "filter isMotion commands = [] \<Longrightarrow> pathLoop commands p pts = pts"
  by (induction commands arbitrary: p pts) (auto split: if_splits)

lemma pathLoop_length:
  "length (pathLoop commands p pts) = length pts + 2 * length (filter isMotion commands)"
  by (induction commands arbitrary: p pts) (auto simp: Let_def)

lemma createToolPath_length: "2 \<le> length (createToolPath commands)"
  by (simp add: createToolPath_def Let_def)

section \<open>The claims about the parser and the path builder\<close>

text \<open>
  Claim C1 as stated fails: on the seven-line text the parser keeps five commands, not
  four, since five of the lines carry a \<open>G\<close> token and a coordinate, and the builder
  gives ten vertices, not eight.
\<close>
theorem endToEnd_counts_counterexample:
  "\<not> (length (parseGCode endToEndText) = 4 \<and>
      length (createToolPath (parseGCode endToEndText)) = 8 \<and>
      last (createToolPath (parseGCode endToEndText)) = (Num 50, Num 50, Num (- 1)))"
  by (simp add: parse_endToEnd)

text \<open>
  Claim C1, amended: on the seven-line text the parser drops the two lines \<open>G21\<close> and
  \<open>G90\<close> and returns exactly the five commands of the other lines; the path builder
  applied to them yields exactly ten vertices, the last of which is \<open>(50, 50, -1)\<close>.
\<close>

theorem endToEnd_five_commands_ten_vertices:
  "parseGCode endToEndText =
    [\<lparr>cmd_type = ''G0'', cmd_x = None, cmd_y = None, cmd_z = Some (Num 5)\<rparr>,
     \<lparr>cmd_type = ''G0'', cmd_x = Some (Num 0), cmd_y = Some (Num 0), cmd_z = None\<rparr>,
     \<lparr>cmd_type = ''G1'', cmd_x = None, cmd_y = None, cmd_z = Some (Num (- 1))\<rparr>,
     \<lparr>cmd_type = ''G1'', cmd_x = Some (Num 50), cmd_y = None, cmd_z = None\<rparr>,
     \<lparr>cmd_type = ''G1'', cmd_x = None, cmd_y = Some (Num 50), cmd_z = None\<rparr>] \<and>
   length (parseGCode endToEndText) = 5 \<and>
   length (createToolPath (parseGCode endToEndText)) = 10 \<and>
   last (createToolPath (parseGCode endToEndText)) = (Num 50, Num 50, Num (- 1))"
  by (simp add: path_endToEnd) (simp add: parse_endToEnd)

theorem endToEnd_witness:
  "length (createToolPath (parseGCode endToEndText)) = 10"
  using endToEnd_five_commands_ten_vertices by blast

text \<open>
  Claim C3: for the two commands \<open>{G1, x: 10}\<close> and \<open>{G1, y: 5}\<close> the builder, starting
  from the origin, produces the vertices \<open>(0,0,0)\<close>, \<open>(10,0,0)\<close>, \<open>(10,0,0)\<close>,
  \<open>(10,5,0)\<close>: the second command keeps the \<open>x\<close> that the first one reached. The same
  holds with any two values in place of 10 and 5.
\<close>
theorem modal_carry_over:
  "createToolPath
     [\<lparr>cmd_type = ''G1'', cmd_x = Some (Num 10), cmd_y = None, cmd_z = None\<rparr>,
      \<lparr>cmd_type = ''G1'', cmd_x = None, cmd_y = Some (Num 5), cmd_z = None\<rparr>] =
     [(Num 0, Num 0, Num 0), (Num 10, Num 0, Num 0),
      (Num 10, Num 0, Num 0), (Num 10, Num 5, Num 0)] \<and>
   createToolPath
     [\<lparr>cmd_type = ''G1'', cmd_x = Some a, cmd_y = None, cmd_z = None\<rparr>,
      \<lparr>cmd_type = ''G1'', cmd_x = None, cmd_y = Some b, cmd_z = None\<rparr>] =
     [(Num 0, Num 0, Num 0), (a, Num 0, Num 0), (a, Num 0, Num 0), (a, b, Num 0)]"
  by (simp add: createToolPath_def isMotion_def startsWith_def moveTo_def Let_def)

theorem modal_carry_over_witness:
  "createToolPath
     [\<lparr>cmd_type = ''G1'', cmd_x = Some (Num 3), cmd_y = None, cmd_z = None\<rparr>,
      \<lparr>cmd_type = ''G1'', cmd_x = None, cmd_y = Some (Num 4), cmd_z = None\<rparr>] =
     [(Num 0, Num 0, Num 0), (Num 3, Num 0, Num 0), (Num 3, Num 0, Num 0), (Num 3, Num 4, Num 0)]"
  using modal_carry_over [of "Num 3" "Num 4"] by blast

text \<open>
  Claim C4 as stated fails: the line \<open>G4 X2\<close>, whose only \<open>G\<close> token begins neither with
  \<open>G0\<close> nor with \<open>G1\<close>, is appended to the output of the parser.
\<close>
theorem G4_line_counterexample:
  "parseGCode ''G4 X2'' =
     [\<lparr>cmd_type = ''G4'', cmd_x = Some (Num 2), cmd_y = None, cmd_z = None\<rparr>] \<and>
   \<not> startsWith ''G4'' ''G0'' \<and> \<not> startsWith ''G4'' ''G1''"
  by (simp add: parse_G4 startsWith_def)

text \<open>
  Claim C4, amended: the parser appends a command for a line exactly when the line is not
  skipped, has at least one \<open>G\<close> token, whatever follows the letter, and has at least one
  numerically valid \<open>X\<close>, \<open>Y\<close> or \<open>Z\<close> token; its output is the commands of these
  lines, in order. The line \<open>G4 X2\<close> is appended, and it is the path builder that gives
  it no segment.
\<close>

theorem parseGCode_appends_iff:
  "parseGCode content =
     map (\<lambda>l. parseParts (lineParts l)) (filter lineAppended (splitOn CHR 0x0A content)) \<and>
   parseGCode ''G4 X2'' =
     [\<lparr>cmd_type = ''G4'', cmd_x = Some (Num 2), cmd_y = None, cmd_z = None\<rparr>] \<and>
   createToolPath (parseGCode ''G4 X2'') =
     [(Num (- 10), Num 0, Num 0), (Num 10, Num 0, Num 0)]"
proof (intro conjI)
  show "parseGCode content =
     map (\<lambda>l. parseParts (lineParts l)) (filter lineAppended (splitOn CHR 0x0A content))"
    by (simp add: parseGCode_def parseLines_filter)
  show "parseGCode ''G4 X2'' =
     [\<lparr>cmd_type = ''G4'', cmd_x = Some (Num 2), cmd_y = None, cmd_z = None\<rparr>]"
    by (rule parse_G4)
  show "createToolPath (parseGCode ''G4 X2'') =
     [(Num (- 10), Num 0, Num 0), (Num 10, Num 0, Num 0)]"
    by (simp only: parse_G4 path_G4)
qed

lemma lineAppended_G0: "\<not> lineAppended ''G0''"
  by code_simp
lemma lineAppended_G1: "lineAppended ''G1 X5''"
  by code_simp

theorem parseGCode_appends_iff_witness:
  "parseGCode (''G0'' @ [CHR 0x0A] @ ''G1 X5'') = [parseParts (lineParts ''G1 X5'')]"
  using parseGCode_appends_iff [of "''G0'' @ [CHR 0x0A] @ ''G1 X5''"]
  by (simp add: lineAppended_G0 lineAppended_G1)

text \<open>
  Claim C8: whenever the motion commands of a sequence yield fewer than two points, the
  builder returns the two-point segment from \<open>(-10,0,0)\<close> to \<open>(10,0,0)\<close>, which has the
  origin as its midpoint. The builder is a total function, so it does not fail.
\<close>
theorem createToolPath_fallback:
  assumes "length (pathLoop commands (Num 0, Num 0, Num 0) []) < 2"
  shows "createToolPath commands = [(Num (- 10), Num 0, Num 0), (Num 10, Num 0, Num 0)]"
proof -
  from assms have "filter isMotion commands = []"
    by (simp add: pathLoop_length)
  then have "pathLoop commands (Num 0, Num 0, Num 0) [] = []"
    by (rule pathLoop_no_motion)
  then show ?thesis by (simp add: createToolPath_def)
qed

theorem createToolPath_fallback_witness:
  "length (pathLoop [] (Num 0, Num 0, Num 0) []) < 2 \<and>
   createToolPath [] = [(Num (- 10), Num 0, Num 0), (Num 10, Num 0, Num 0)] \<and>
   length (pathLoop [\<lparr>cmd_type = ''M2'', cmd_x = Some (Num 1), cmd_y = None, cmd_z = None\<rparr>]
      (Num 0, Num 0, Num 0) []) < 2 \<and>
   createToolPath [\<lparr>cmd_type = ''M2'', cmd_x = Some (Num 1), cmd_y = None, cmd_z = None\<rparr>]
     = [(Num (- 10), Num 0, Num 0), (Num 10, Num 0, Num 0)]"
  using createToolPath_fallback [of "[]"]
    createToolPath_fallback
      [of "[\<lparr>cmd_type = ''M2'', cmd_x = Some (Num 1), cmd_y = None, cmd_z = None\<rparr>]"]
  by (simp add: isMotion_def startsWith_def)

text \<open>
  Claim C10: among several tokens with the same code letter on one line the last one
  wins. The type of the parsed command is the last \<open>G\<close> token of the line (the empty
  string when there is none), and each coordinate is the number read from the last
  numerically valid token of its axis (absent when there is none).
\<close>
theorem later_token_overrides:
  "cmd_type (parseParts parts) = lastOr [] (filter isGToken parts) \<and>
   cmd_x (parseParts parts) =
     lastOr None (map (\<lambda>p. parseFloat (slice1 p)) (filter (isAxisToken ''X'') parts)) \<and>
   cmd_y (parseParts parts) =
     lastOr None (map (\<lambda>p. parseFloat (slice1 p)) (filter (isAxisToken ''Y'') parts)) \<and>
   cmd_z (parseParts parts) =
     lastOr None (map (\<lambda>p. parseFloat (slice1 p)) (filter (isAxisToken ''Z'') parts))"
  using parseParts_type parseParts_x parseParts_y parseParts_z by simp

lemma parts_example:
  "parseParts [''G0'', ''X1'', ''G1'', ''X2'', ''Xa'', ''Y3''] =
     \<lparr>cmd_type = ''G1'', cmd_x = Some (Num 2), cmd_y = Some (Num 3), cmd_z = None\<rparr>"
  by code_simp

theorem later_token_overrides_witness:
  "lastOr [] (filter isGToken [''G0'', ''X1'', ''G1'', ''X2'', ''Xa'', ''Y3'']) = ''G1'' \<and>
   lastOr None (map (\<lambda>p. parseFloat (slice1 p))
     (filter (isAxisToken ''X'') [''G0'', ''X1'', ''G1'', ''X2'', ''Xa'', ''Y3''])) = Some (Num 2)"
  using later_token_overrides [of "[''G0'', ''X1'', ''G1'', ''X2'', ''Xa'', ''Y3'']"]
  by (simp add: parts_example)

section \<open>Properties of the rounded product\<close>

lemma bitLength_le: "n < 2 ^ k \<Longrightarrow> bitLength n \<le> k"
proof (induction n arbitrary: k rule: bitLength.induct)
  case (1 n)
  show ?case
  proof (cases "n = 0")
    case True
    then show ?thesis by (simp add: bitLength.simps)
  next
    case False
    with "1.prems" obtain j where k: "k = Suc j"
      by (cases k) auto
    from "1.prems" k have "n div 2 < 2 ^ j" by auto
    with "1.IH" [OF False] have "bitLength (n div 2) \<le> j" .
    with False k show ?thesis by (simp add: bitLength.simps [of n])
  qed
qed

lemma bitLength_pos: "0 < n \<Longrightarrow> 0 < bitLength n"
  by (simp add: bitLength.simps [of n])

lemma bitLength_bounds:
  "0 < n \<Longrightarrow> 2 ^ (bitLength n - 1) \<le> n \<and> n < 2 ^ bitLength n"
proof (induction n rule: bitLength.induct)
  case (1 n)
  then have n0: "n \<noteq> 0" by simp
  show ?case
  proof (cases "n div 2 = 0")
    case True
    with "1.prems" have "n = 1" by (simp add: div_eq_0_iff) 
    then show ?thesis
      by (simp add: bitLength.simps [of "Suc 0"] bitLength.simps [of 0])
  next
    case False
    then have h: "0 < n div 2" by simp
    from "1.IH" [OF n0 h]
    have lo: "2 ^ (bitLength (n div 2) - 1) \<le> n div 2"
      and hi: "n div 2 < 2 ^ bitLength (n div 2)" by auto
    from bitLength_pos [OF h] obtain b where b: "bitLength (n div 2) = Suc b"
      by (cases "bitLength (n div 2)") auto
    have bl: "bitLength n = Suc (Suc b)"
      using n0 b by (simp add: bitLength.simps [of n])
    from lo b have "2 * 2 ^ b \<le> 2 * (n div 2)" by simp
    also have "\<dots> \<le> n" by simp
    finally have l: "2 ^ Suc b \<le> n" by simp
    from hi b have "n div 2 + 1 \<le> 2 ^ Suc b" by simp
    then have "2 * (n div 2) + 2 \<le> 2 * 2 ^ Suc b" by simp
    moreover have "n < 2 * (n div 2) + 2" by presburger
    ultimately have u: "n < 2 ^ Suc (Suc b)" by simp
    from l u bl show ?thesis by simp
  qed
qed

lemma binaryExponent_bounds:
  assumes "0 < x"
  shows "pow2 (binaryExponent x) \<le> x \<and> x < pow2 (binaryExponent x + 1)"
proof (cases "1 \<le> x")
  case True
  define n where "n = nat \<lfloor>x\<rfloor>"
  have n1: "0 < n" using True by (simp add: n_def)
  have nx: "real n \<le> x" "x < real n + 1"
    using True by (simp_all add: n_def)
  from bitLength_pos [OF n1] obtain b where b: "bitLength n = Suc b"
    by (cases "bitLength n") auto
  from bitLength_bounds [OF n1] b have "2 ^ b \<le> n" "n + 1 \<le> 2 ^ Suc b" by auto
  then have "real (2 ^ b) \<le> real n" "real (n + 1) \<le> real (2 ^ Suc b)"
    by (simp_all only: of_nat_le_iff)
  then have "2 ^ b \<le> real n" "real n + 1 \<le> 2 ^ Suc b" by simp_all
  with nx have "2 ^ b \<le> x" "x < 2 ^ Suc b" by linarith+
  moreover have "binaryExponent x = int b"
    using True b by (simp add: binaryExponent_def n_def)
  ultimately show ?thesis by (simp add: pow2_def nat_add_distrib)
next
  case False
  define y where "y = 1 / x"
  have y1: "1 < y" using assms False by (simp add: y_def)
  define m where "m = nat (\<lceil>y\<rceil> - 1)"
  have "2 \<le> \<lceil>y\<rceil>" using y1 by linarith
  then have m1: "0 < m" by (simp add: m_def)
  have my: "real m < y" "y \<le> real m + 1"
    using \<open>2 \<le> \<lceil>y\<rceil>\<close> by (simp_all add: m_def) linarith+
  from bitLength_pos [OF m1] obtain b where b: "bitLength m = Suc b"
    by (cases "bitLength m") auto
  from bitLength_bounds [OF m1] b have "2 ^ b \<le> m" "m + 1 \<le> 2 ^ Suc b" by auto
  then have "real (2 ^ b) \<le> real m" "real (m + 1) \<le> real (2 ^ Suc b)"
    by (simp_all only: of_nat_le_iff)
  then have "2 ^ b \<le> real m" "real m + 1 \<le> 2 ^ Suc b" by simp_all
  with my have yb: "2 ^ b < y" "y \<le> 2 ^ Suc b" by linarith+
  have xy: "x = 1 / y" using assms by (simp add: y_def)
  have e: "binaryExponent x = - int (Suc b)"
    using False b by (simp add: binaryExponent_def m_def y_def)
  have lo: "1 / 2 ^ Suc b \<le> x"
    unfolding xy using yb(2) y1 by (intro divide_left_mono) auto
  have hi: "x < 1 / 2 ^ b"
    unfolding xy using yb(1) y1 by (intro divide_strict_left_mono) auto
  have nb: "nat (int b + 1) = Suc b" by simp
  have p1: "pow2 (- int (Suc b)) = 1 / 2 ^ Suc b" by (simp add: pow2_def nb)
  have p2: "pow2 (- int (Suc b) + 1) = 1 / 2 ^ b"
  proof -
    have "- int (Suc b) + 1 = - int b" by simp
    then show ?thesis by (cases "b = 0") (simp_all add: pow2_def)
  qed
  from lo hi show ?thesis unfolding e p1 p2 by simp
qed

lemma roundHalfEven_near: "\<bar>real_of_int (roundHalfEven q) - q\<bar> \<le> 1 / 2"
  by (simp add: roundHalfEven_def Let_def)

lemma binaryExponent_le:
  assumes "0 < x" and "x < 2 ^ Suc k"
  shows "binaryExponent x \<le> int k"
proof (cases "1 \<le> x")
  case True
  have "x < of_int (2 ^ Suc k)" using assms(2) by simp
  then have "\<lfloor>x\<rfloor> < 2 ^ Suc k" by (simp only: floor_less_iff)
  then have "nat \<lfloor>x\<rfloor> < 2 ^ Suc k"
    using True by (simp add: nat_less_iff)
  then have "bitLength (nat \<lfloor>x\<rfloor>) \<le> Suc k" by (rule bitLength_le)
  with True show ?thesis by (simp add: binaryExponent_def)
next
  case False
  then show ?thesis by (simp add: binaryExponent_def)
qed

lemma roundHalfEven_le:
  assumes "q \<le> of_int N"
  shows "roundHalfEven q \<le> N"
proof -
  have f: "\<lfloor>q\<rfloor> \<le> N" using assms by (simp add: floor_le_iff)
  show ?thesis
  proof (cases "q - of_int \<lfloor>q\<rfloor> < 1 / 2")
    case True
    with f show ?thesis by (simp add: roundHalfEven_def Let_def)
  next
    case False
    then have "of_int \<lfloor>q\<rfloor> < q" by linarith
    then have "of_int \<lfloor>q\<rfloor> < (of_int N :: real)" using assms by linarith
    then have "\<lfloor>q\<rfloor> < N" by simp
    then show ?thesis by (simp add: roundHalfEven_def Let_def)
  qed
qed

lemma roundMagnitude_le:
  assumes "0 < x" and "x \<le> real t" and "binaryExponent x \<le> 52"
  shows "roundMagnitude x \<le> real t"
proof -
  define u where "u = max (binaryExponent x - 52) (- 1074)"
  define m where "m = nat (- u)"
  from assms(3) have u0: "u \<le> 0" by (simp add: u_def)
  then have p: "pow2 u = 1 / 2 ^ m"
    by (cases "u = 0") (auto simp: pow2_def m_def)
  have "x / pow2 u = x * 2 ^ m" by (simp add: p)
  also have "\<dots> \<le> real t * 2 ^ m" using assms(2) by simp
  also have "\<dots> = of_int (int (t * 2 ^ m))" by simp
  finally have "roundHalfEven (x / pow2 u) \<le> int (t * 2 ^ m)"
    by (rule roundHalfEven_le)
  then have "real_of_int (roundHalfEven (x / pow2 u)) \<le> real_of_int (int (t * 2 ^ m))"
    by (simp only: of_int_le_iff)
  then have "real_of_int (roundHalfEven (x / pow2 u)) \<le> real t * 2 ^ m"
    by simp
  then have "real_of_int (roundHalfEven (x / pow2 u)) * pow2 u \<le> real t"
    by (simp add: p field_simps)
  with assms(1) show ?thesis
    by (simp add: roundMagnitude_def Let_def u_def)
qed

lemma roundDouble_le_nat:
  assumes "0 \<le> x" and "x \<le> real t" and "real t < 2 ^ 53"
  shows "roundDouble x \<le> real t"
proof (cases "x = 0")
  case True
  then show ?thesis by (simp add: roundDouble_def roundMagnitude_def)
next
  case False
  with assms(1) have pos: "0 < x" by simp
  from assms(2,3) have "x < 2 ^ 53" by (rule le_less_trans)
  then have "x < 2 ^ Suc 52" by simp
  with pos have "binaryExponent x \<le> int 52" by (rule binaryExponent_le)
  then have "binaryExponent x \<le> 52" by simp
  with pos assms(2) have "roundMagnitude x \<le> real t" by (rule roundMagnitude_le)
  with pos show ?thesis by (simp add: roundDouble_def)
qed

section \<open>Properties of the scene handlers\<close>

lemma updatePathAnimation_playback [simp]:
  "progress (updatePathAnimation p s) = progress s"
  "isPlaying (updatePathAnimation p s) = isPlaying s"
  "lastTimeRef (updatePathAnimation p s) = lastTimeRef s"
  by (simp_all add: updatePathAnimation_def Let_def)

lemma pointsToShow_le:
  assumes "2 \<le> totalPoints" and "totalPoints < 2 ^ 32"
  shows "pointsToShow totalPoints p \<le> totalPoints"
proof (cases "p \<le> 0 \<or> 1 \<le> p")
  case True
  then show ?thesis by (auto simp: pointsToShow_def)
next
  case False
  then have p: "0 < p" "p < 1" by auto
  have "real totalPoints * p \<le> real totalPoints * 1"
    using p by (intro mult_left_mono) auto
  then have le: "real totalPoints * p \<le> real totalPoints" by simp
  have "real totalPoints < real (2 ^ 32)"
    using assms(2) by (simp only: of_nat_less_iff)
  then have "real totalPoints < 2 ^ 53" by simp
  with le have "roundDouble (real totalPoints * p) \<le> real totalPoints"
    using p by (intro roundDouble_le_nat) auto
  then have "\<lceil>roundDouble (real totalPoints * p)\<rceil> \<le> int totalPoints"
    by (simp add: ceiling_le_iff)
  then have "nat \<lceil>roundDouble (real totalPoints * p)\<rceil> \<le> totalPoints" by linarith
  with assms p show ?thesis by (simp add: pointsToShow_def)
qed

lemma double_of_slider_example:
  "roundDouble (7 / 50) = 1261007895663739 / 9007199254740992"
  by code_simp

lemma pointsToShow_slider_example: "pointsToShow 50 (roundDouble (7 / 50)) = 8"
  by code_simp

lemma pointsToShow_two_fifths: "pointsToShow 10 (roundDouble (4 / 10)) = 4"
  by code_simp

lemma pointsToShow_one_half: "pointsToShow (Suc 0) (1 / 2) = 2"
  by code_simp

lemma pointsToShow_none_half: "pointsToShow 0 (1 / 2) = 2"
  by code_simp

lemma animate_progress_mono:
  assumes "isPlaying s" and "progress s \<le> 1"
    and "lastTimeRef s = 0 \<or> lastTimeRef s \<le> t"
  shows "progress s \<le> progress (animate t s) \<and> progress (animate t s) \<le> 1"
proof -
  define d where "d = t - (if lastTimeRef s = 0 then t else lastTimeRef s)"
  have "0 \<le> d" using assms(3) by (auto simp: d_def)
  then have "0 \<le> d / animationDuration" by (simp add: animationDuration_def)
  moreover have "progress (animate t s) = min 1 (progress s + d / animationDuration)"
    using assms(1) by (simp add: animate_def Let_def d_def)
  ultimately show ?thesis using assms(2) by simp
qed

lemma animate_first_tick:
  assumes "isPlaying s" and "lastTimeRef s = 0" and "progress s < 1"
  shows "progress (animate t s) = progress s \<and> lastTimeRef (animate t s) = t"
  using assms by (simp add: animate_def Let_def)

section \<open>The claims about playback and the partial path\<close>

text \<open>
  Claim C5 as stated fails: a seek to one half while the controller is playing leaves it
  playing; the handler stops playback only when the new value reaches 1.
\<close>
theorem seek_while_playing_counterexample:
  "isPlaying (handleProgressChange (1 / 2) ((sceneWithPath [])\<lparr>isPlaying := True\<rparr>)) \<and>
   progress (handleProgressChange (1 / 2) ((sceneWithPath [])\<lparr>isPlaying := True\<rparr>)) = 1 / 2"
  by (simp add: handleProgressChange_def sceneWithPath_def Let_def)

text \<open>
  Claim C5, amended: the seek handler sets progress to the value it is given, whatever
  the time elapsed and the timestamp of the last tick, which it leaves as it was; for a
  value between 0 and 1, as the slider gives, this is the value clamped to that range.
  It stops playback when the new value is 1 or more, and otherwise leaves the playing
  flag as it was: a playing controller goes on playing.
\<close>
theorem handleProgressChange_effect:
  "progress (handleProgressChange v s) = v \<and>
   isPlaying (handleProgressChange v s) = (isPlaying s \<and> v < 1) \<and>
   lastTimeRef (handleProgressChange v s) = lastTimeRef s \<and>
   (0 \<le> v \<and> v \<le> 1 \<longrightarrow> progress (handleProgressChange v s) = clamp v 0 1)"
  by (auto simp: handleProgressChange_def Let_def clamp_def)

theorem handleProgressChange_effect_witness:
  "progress (handleProgressChange 1 ((sceneWithPath [])\<lparr>isPlaying := True\<rparr>)) = clamp 1 0 1 \<and>
   \<not> isPlaying (handleProgressChange 1 ((sceneWithPath [])\<lparr>isPlaying := True\<rparr>))"
  using handleProgressChange_effect [of 1 "(sceneWithPath [])\<lparr>isPlaying := True\<rparr>"]
  by simp

text \<open>
  Claim C6 as stated fails for a list too short to hold the two points the formula asks
  for. On the empty list, the state before a path is loaded, the renderer returns without
  drawing, while the formula gives 2 for progress one half; on a one-point list it
  draws one point.
\<close>
theorem updatePathAnimation_empty_counterexample:
  "pointsToShow (length ([] :: Vector3 list)) (1 / 2) = 2 \<and>
   toolPathRef (updatePathAnimation (1 / 2) (sceneWithPath [])) = None \<and>
   pointsToShow (length [(Num 0, Num 0, Num 0)]) (1 / 2) = 2 \<and>
   toolPathRef (updatePathAnimation (1 / 2) (sceneWithPath [(Num 0, Num 0, Num 0)])) =
     Some [(Num 0, Num 0, Num 0)]"
  by (simp add: pointsToShow_one_half pointsToShow_none_half updatePathAnimation_def
      sceneWithPath_def Let_def)

text \<open>
  Claim C6, amended: for every full vertex list of at least two points, as every path of
  the builder is, and fewer than \<open>2 ^ 32\<close>, the bound of an array, in an existing scene,
  and for every progress value, the displayed line is made of the first \<open>pointsToShow\<close>
  vertices of the list and has exactly that many points, where \<open>pointsToShow\<close> is 0 when
  progress is at most 0, the total when progress is at least 1, and otherwise the larger
  of 2 and the ceiling of total times progress, this product being the product of
  doubles. At 50 points and the slider value 0.14, that is the double nearest to \<open>7 / 50\<close>, the
  product is just above 7 and 8 points are shown.
\<close>
theorem updatePathAnimation_visible:
  assumes "2 \<le> length (completePathPointsRef s)"
    and "length (completePathPointsRef s) < 2 ^ 32"
    and "sceneRef s"
  shows "toolPathRef (updatePathAnimation p s) =
           Some (take (pointsToShow (length (completePathPointsRef s)) p)
                   (completePathPointsRef s)) \<and>
         length (take (pointsToShow (length (completePathPointsRef s)) p)
                   (completePathPointsRef s)) =
           pointsToShow (length (completePathPointsRef s)) p \<and>
         pointsToShow (length (completePathPointsRef s)) p =
           (if p \<le> 0 then 0
            else if 1 \<le> p then length (completePathPointsRef s)
            else max 2
              (nat \<lceil>roundDouble (real (length (completePathPointsRef s)) * p)\<rceil>))"
proof (intro conjI)
  from assms(1) have ne: "completePathPointsRef s \<noteq> []" by auto
  with assms(3) show "toolPathRef (updatePathAnimation p s) =
           Some (take (pointsToShow (length (completePathPointsRef s)) p)
                   (completePathPointsRef s))"
    by (simp add: updatePathAnimation_def Let_def)
  show "length (take (pointsToShow (length (completePathPointsRef s)) p)
                   (completePathPointsRef s)) =
           pointsToShow (length (completePathPointsRef s)) p"
    using pointsToShow_le [OF assms(1) assms(2), of p] by simp
  show "pointsToShow (length (completePathPointsRef s)) p =
           (if p \<le> 0 then 0
            else if 1 \<le> p then length (completePathPointsRef s)
            else max 2
              (nat \<lceil>roundDouble (real (length (completePathPointsRef s)) * p)\<rceil>))"
    by (simp add: pointsToShow_def)
qed

theorem updatePathAnimation_visible_witness:
  "2 \<le> length (completePathPointsRef (sceneWithPath (replicate 50 (Num 0, Num 0, Num 0)))) \<and>
   length (completePathPointsRef (sceneWithPath (replicate 50 (Num 0, Num 0, Num 0)))) < 2 ^ 32 \<and>
   sceneRef (sceneWithPath (replicate 50 (Num 0, Num 0, Num 0))) \<and>
   toolPathRef (updatePathAnimation (roundDouble (7 / 50))
      (sceneWithPath (replicate 50 (Num 0, Num 0, Num 0)))) =
     Some (replicate 8 (Num 0, Num 0, Num 0))"
  using updatePathAnimation_visible
    [of "sceneWithPath (replicate 50 (Num 0, Num 0, Num 0))" "roundDouble (7 / 50)"]
  by (simp add: sceneWithPath_def pointsToShow_slider_example)

text \<open>
  Claim C7 says that the first tick after entering the playing state applies no delta.
  The handlers keep this only when \<open>lastTimeRef\<close> is 0 on entry, as it is after a reset
  or a completed run (\<open>animate_first_tick\<close>). Pausing does not reset it, so the first
  tick after a resume adds the whole time of the pause: play, ticks at 1000 and 2000
  (progress one fifth), pause, play, tick at 10000 ends with progress 1 and playback
  stopped. Progress itself never decreases from a tick to the next
  (\<open>animate_progress_mono\<close>).
\<close>
theorem resume_tick_applies_pause_delta:
  "progress (animate 1000 (togglePlay (sceneWithPath []))) = 0 \<and>
   progress (animate 2000 (animate 1000 (togglePlay (sceneWithPath [])))) = 1 / 5 \<and>
   isPlaying (togglePlay (togglePlay (animate 2000 (animate 1000 (togglePlay (sceneWithPath [])))))) \<and>
   lastTimeRef (togglePlay (togglePlay (animate 2000 (animate 1000 (togglePlay (sceneWithPath [])))))) = 2000 \<and>
   progress (animate 10000 (togglePlay (togglePlay
      (animate 2000 (animate 1000 (togglePlay (sceneWithPath []))))))) = 1 \<and>
   \<not> isPlaying (animate 10000 (togglePlay (togglePlay
      (animate 2000 (animate 1000 (togglePlay (sceneWithPath [])))))))"
  by (simp add: animate_def togglePlay_def sceneWithPath_def Let_def animationDuration_def
      updatePathAnimation_def)

section \<open>The claims about loading\<close>

text \<open>
  Claim C2 as stated fails: when the second load settles first and the first load after
  it, the slot ends with the resource of the first load. When the first load settles
  first, its resource is installed at that moment, before the second one replaces it.
\<close>
theorem first_load_settling_last_counterexample:
  "resource (twoLoads True (Loaded (1::nat)) (Loaded 2) initialHook) = Some 1 \<and>
   resource (finishLoad (fst (startLoad initialHook)) (Loaded (1::nat))
      (snd (startLoad (snd (startLoad initialHook))))) = Some 1"
  by (simp add: twoLoads_def startLoad_def finishLoad_def initialHook_def Let_def)

text \<open>
  Claim C2, amended: in either hook the continuation of a load puts what the load gave in
  the slot, its resource when it succeeded and nothing when it failed, whether or not a
  later load has been triggered. With two loads triggered in a row, from any state of the
  hook, once both have settled the slot holds what the load that settled last gave: the
  result of the second load when the first one settled first, and the result of the
  first load otherwise.
\<close>
theorem last_settled_load_occupies_slot:
  "resource (finishLoad previous result s) = settledResource result \<and>
   resource (twoLoads False resultA resultB s) = settledResource resultB \<and>
   resource (twoLoads True resultA resultB s) = settledResource resultA"
  by (cases result; cases resultA; cases resultB)
    (simp_all add: twoLoads_def startLoad_def finishLoad_def Let_def settledResource_def)

theorem last_settled_load_witness:
  "resource (twoLoads True (Loaded ''A'') (Loaded ''B'') initialHook) = Some ''A'' \<and>
   resource (twoLoads True (Failed ''Failed to load STL: x'') (Loaded ''B'') initialHook) = None \<and>
   resource (twoLoads False (Loaded ''A'') (Loaded ''B'') initialHook) = Some ''B''"
  using last_settled_load_occupies_slot
    [of None "Loaded ''A''" initialHook "Loaded ''A''" "Loaded ''B''"]
    last_settled_load_occupies_slot
    [of None "Loaded ''A''" initialHook "Failed ''Failed to load STL: x''" "Loaded ''B''"]
  by (simp add: settledResource_def)

text \<open>
  Claim C9 as stated fails for the earlier variant of the hooks: with no file given its
  effect returns before anything is read, no default source is requested and the slot
  stays empty.
\<close>
theorem old_hook_null_file_counterexample:
  "fst (startLoadOld (None :: string option) (initialHook :: string HookState)) = None \<and>
   resource (snd (startLoadOld (None :: string option) (initialHook :: string HookState)))
     = None \<and>
   \<not> isLoading (snd (startLoadOld (None :: string option) (initialHook :: string HookState)))"
  by (simp add: startLoadOld_def initialHook_def)

text \<open>
  Claim C9, amended: in the variant of the hooks that declares the default paths, with no
  file given each hook loads its default source, \<open>/models/test.gcode\<close> or
  \<open>/models/dragon.stl\<close>. When that source can be retrieved, the G-code hook produces the
  path of its content, which has at least two vertices and is the path an uploaded file
  of the same content gives, and the model hook produces a mesh of the decoded geometry,
  as an uploaded file decoding to that geometry does. In the earlier variant of the hooks
  the effect returns at once when no file is given: nothing is read and the state is
  left as it was.
\<close>
theorem default_assets_loaded:
  assumes "fetch DEFAULT_GCODE_PATH = Inr content"
    and "loadAsync DEFAULT_STL_PATH = Inr g"
  shows "loadPath fetch None = Inr (createToolPath (parseGCode content)) \<and>
         loadPath fetch None = loadPath fetch (Some (Inr content)) \<and>
         2 \<le> length (createToolPath (parseGCode content)) \<and>
         loadModel loadAsync parseStl None = Inr (newMesh g) \<and>
         (parseStl bytes = Inr g \<longrightarrow>
            loadModel loadAsync parseStl None = loadModel loadAsync parseStl (Some (Inr bytes))) \<and>
         startLoadOld (None :: 'f option) s = (None, s)"
  using assms
  by (simp add: loadPath_def loadModel_def createToolPath_def Let_def startLoadOld_def)

lemma path_testGcode:
  "createToolPath (parseGCode testGcode) =
     [(Num 0, Num 0, Num 0), (Num 0, Num 0, Num 10), (Num 0, Num 0, Num 10),
      (Num (- 60), Num (- 60), Num 10), (Num (- 60), Num (- 60), Num 10),
      (Num (- 60), Num (- 60), Num 0), (Num (- 60), Num (- 60), Num 0),
      (Num 60, Num (- 60), Num 0), (Num 60, Num (- 60), Num 0),
      (Num 60, Num 60, Num 0), (Num 60, Num 60, Num 0),
      (Num (- 60), Num 60, Num 0), (Num (- 60), Num 60, Num 0),
      (Num (- 60), Num (- 60), Num 0), (Num (- 60), Num (- 60), Num 0),
      (Num (- 60), Num (- 60), Num 10)]"
  by code_simp

theorem default_assets_loaded_witness:
  "serveDefault DEFAULT_GCODE_PATH = Inr testGcode \<and>
   (\<lambda>p. if p = DEFAULT_STL_PATH then Inr ''dragon'' else Inl ''not found'') DEFAULT_STL_PATH
      = (Inr ''dragon'' :: string + string) \<and>
   loadPath serveDefault None = Inr
     [(Num 0, Num 0, Num 0), (Num 0, Num 0, Num 10), (Num 0, Num 0, Num 10),
      (Num (- 60), Num (- 60), Num 10), (Num (- 60), Num (- 60), Num 10),
      (Num (- 60), Num (- 60), Num 0), (Num (- 60), Num (- 60), Num 0),
      (Num 60, Num (- 60), Num 0), (Num 60, Num (- 60), Num 0),
      (Num 60, Num 60, Num 0), (Num 60, Num 60, Num 0),
      (Num (- 60), Num 60, Num 0), (Num (- 60), Num 60, Num 0),
      (Num (- 60), Num (- 60), Num 0), (Num (- 60), Num (- 60), Num 0),
      (Num (- 60), Num (- 60), Num 10)] \<and>
   loadModel (\<lambda>p. if p = DEFAULT_STL_PATH then Inr ''dragon'' else Inl ''not found'')
      (\<lambda>b :: string. Inr b :: string + string) None = Inr (newMesh ''dragon'')"
  using default_assets_loaded [where 'f = string, of serveDefault testGcode
      "\<lambda>p. if p = DEFAULT_STL_PATH then Inr ''dragon'' else Inl ''not found''" "''dragon''"
      "\<lambda>b :: string. Inr b :: string + string" "''dragon''"
      "initialHook :: string HookState"]
  by (simp add: serveDefault_def path_testGcode)

end
